theory Spec2Isabelle
  imports Main "HOL-Library.Word"
begin

section \<open>Values exchanged with the client\<close>

text \<open>
  The handlers of \<^verbatim>\<open>app/auth/views.py\<close>, \<^verbatim>\<open>app/orders/routes.py\<close> and
  \<^verbatim>\<open>app/wishlist/routes.py\<close> read a JSON body and answer with \<^verbatim>\<open>jsonify(...)\<close> and a
  status code. A JSON value is a datatype; the type parameter \<open>'f\<close> stands for Python's
  \<^verbatim>\<open>float\<close>, whose arithmetic is a parameter of the model (see \<open>env\<close> below).
\<close>

datatype 'f json =
    JNull
  | JBool bool
  | JInt int
  | JFloat 'f
  | JStr string
  | JArr "'f json list"
  | JObj "(string \<times> 'f json) list"

text \<open>
  A key of the request body is absent, present with the value \<^verbatim>\<open>null\<close>, or present with a
  value of the type its column declares in \<^verbatim>\<open>app/models.py\<close>. \<^verbatim>\<open>k in data\<close> asks for
  presence, \<^verbatim>\<open>data.get(k)\<close> is \<^verbatim>\<open>None\<close> for an absent key and for \<^verbatim>\<open>null\<close>.
\<close>

datatype 'a field = Absent | Null | Given 'a

definition present :: "'a field \<Rightarrow> bool" where
  "present f = (f \<noteq> Absent)"

fun get :: "'a field \<Rightarrow> 'a option" where
  "get Absent = None"
| "get Null = None"
| "get (Given x) = Some x"

text \<open>An exception no handler catches; Flask answers it with status 500.\<close>

datatype pyexn = TypeError | AttributeError | IntegrityError | DatabaseError

datatype 'f response = Response nat "'f json" | Unhandled pyexn

fun status_code :: "'f response \<Rightarrow> nat" where
  "status_code (Response c b) = c"
| "status_code (Unhandled e) = 500"

subsection \<open>Python string helpers\<close>





text \<open>\<^verbatim>\<open>str(n)\<close> for an integer: its decimal digits, with a minus sign below zero.\<close>

fun digits :: "nat \<Rightarrow> string" where
  "digits n = (if n < 10 then [char_of (48 + n)] else digits (n div 10) @ [char_of (48 + n mod 10)])"

declare digits.simps [simp del]

definition str_int :: "int \<Rightarrow> string" where
  "str_int i = (if i < 0 then CHR ''-'' # digits (nat (- i)) else digits (nat i))"

section \<open>The data model of \<^verbatim>\<open>app/models.py\<close>\<close>

type_synonym uuid = "128 word"

datatype UserRole = ADMIN | FARMER | BUYER

fun role_value :: "UserRole \<Rightarrow> string" where
  "role_value ADMIN = ''admin''"
| "role_value FARMER = ''farmer''"
| "role_value BUYER = ''buyer''"

text \<open>
  One record per table, one field per column, named \<open>table_column\<close>. A nullable column is
  an \<open>option\<close>. Timestamps are seconds; a \<^verbatim>\<open>Numeric(10, 2)\<close> amount is an integer number of
  hundredths.
\<close>

record user =
  user_id :: uuid
  user_email :: string
  user_password_hash :: string
  user_role :: UserRole
  user_is_active :: "bool option"
  user_full_name :: "string option"
  user_phone_number :: "string option"
  user_location :: "string option"
  user_created_at :: nat
  user_updated_at :: "nat option"

record farmer =
  farmer_id :: int
  farmer_user_id :: uuid
  farmer_farm_name :: string
  farmer_location :: string
  farmer_phone_number :: string
  farmer_is_verified :: "bool option"
  farmer_created_at :: nat
  farmer_updated_at :: "nat option"

record buyer =
  buyer_id :: int
  buyer_user_id :: uuid
  buyer_delivery_address :: "string option"
  buyer_preferred_contact :: "string option"
  buyer_created_at :: nat
  buyer_updated_at :: "nat option"

record 'f animal =
  animal_id :: int
  animal_farmer_id :: int
  animal_species :: string
  animal_breed :: "string option"
  animal_age :: "int option"
  animal_weight :: "'f option"
  animal_price :: int
  animal_status :: "string option"
  animal_image_url :: "string option"
  animal_created_at :: nat
  animal_updated_at :: "nat option"

record 'f order =
  order_id :: int
  order_buyer_id :: int
  order_items :: "'f json"
  order_total_amount :: int
  order_status :: "string option"
  order_payment_method :: "string option"
  order_created_at :: nat
  order_updated_at :: "nat option"

record wishlist =
  wishlist_id :: int
  wishlist_user_id :: uuid
  wishlist_animal_id :: int
  wishlist_created_at :: nat
  wishlist_updated_at :: "nat option"

text \<open>The committed content of the database: every table in storage order.\<close>

record 'f database =
  users :: "user list"
  farmers :: "farmer list"
  buyers :: "buyer list"
  animals :: "'f animal list"
  orders :: "'f order list"
  wishlists :: "wishlist list"

text \<open>Column defaults declared on \<^verbatim>\<open>Order\<close>.\<close>

definition order_status_default :: string where
  "order_status_default = ''pending''"

definition order_payment_method_default :: string where
  "order_payment_method_default = ''mpesa''"

text \<open>
  What the ORM inserts for a string column that has a default: an attribute left at
  \<^verbatim>\<open>None\<close> is omitted from the INSERT, so the column default applies.
\<close>

fun insert_default :: "string \<Rightarrow> string option \<Rightarrow> string option" where
  "insert_default d None = Some d"
| "insert_default d (Some s) = Some s"

text \<open>Primary keys are unique in every table (\<^verbatim>\<open>primary_key=True\<close>).\<close>

definition pk_unique :: "'f database \<Rightarrow> bool" where
  "pk_unique db \<longleftrightarrow>
     distinct (map user_id (users db)) \<and>
     distinct (map farmer_id (farmers db)) \<and>
     distinct (map buyer_id (buyers db)) \<and>
     distinct (map animal_id (animals db)) \<and>
     distinct (map order_id (orders db)) \<and>
     distinct (map wishlist_id (wishlists db))"

section \<open>External collaborators\<close>

text \<open>
  Library functions the handlers call and whose code is not part of the repository. They
  are parameters: every theorem holds for whatever they compute.
  \<^item> \<open>UUID\<close>: \<^verbatim>\<open>uuid.UUID(s)\<close>, \<open>None\<close> when it raises \<^verbatim>\<open>ValueError\<close>;
  \<^item> \<open>str_uuid\<close>: \<^verbatim>\<open>str(u)\<close> for a UUID;
  \<^item> \<open>check_password_hash\<close>: werkzeug's check of \<^verbatim>\<open>data.get("password")\<close> against a stored
    hash, \<open>None\<close> when it raises (as it does on a password that is no string);
  \<^item> \<open>isoformat\<close>: \<^verbatim>\<open>datetime.isoformat()\<close>;
  \<^item> \<open>float_of_decimal\<close>, \<open>float_of_int\<close>, \<open>float_add\<close>, \<open>float_round2\<close>: Python's
    \<^verbatim>\<open>float(d)\<close> for a \<^verbatim>\<open>Decimal\<close> given in hundredths, \<^verbatim>\<open>float(i)\<close>, \<^verbatim>\<open>x + y\<close> and
    \<^verbatim>\<open>round(x, 2)\<close> on floats;
  \<^item> \<open>pg_int4\<close>: how the database reads a string bound to an \<^verbatim>\<open>Integer\<close> column, \<open>None\<close>
    when it rejects the string (the query then raises).
\<close>

record 'f env =
  UUID :: "string \<Rightarrow> uuid option"
  str_uuid :: "uuid \<Rightarrow> string"
  check_password_hash :: "string \<Rightarrow> string option \<Rightarrow> bool option"
  isoformat :: "nat \<Rightarrow> string"
  float_of_decimal :: "int \<Rightarrow> 'f"
  float_of_int :: "int \<Rightarrow> 'f"
  float_add :: "'f \<Rightarrow> 'f \<Rightarrow> 'f"
  float_round2 :: "'f \<Rightarrow> 'f"
  pg_int4 :: "string \<Rightarrow> int option"

text \<open>
  What one request draws from its environment: the random UUID and the salted password
  hash, the clock, the token the JWT library signs, the key the database assigns to an
  inserted row, whether the flush and the commit go through, and the text \<^verbatim>\<open>str(e)\<close> of
  the exception a failing commit raises. Constraint violations the database detects,
  lost connections and the like are all among the failures these stand for.
\<close>

record world =
  uuid4 :: uuid
  generate_password_hash :: "string \<Rightarrow> string"
  create_access_token :: "string \<Rightarrow> string \<Rightarrow> string"
  utcnow :: nat
  next_id :: int
  flush_ok :: bool
  commit_ok :: bool
  exn_text :: string

section \<open>The database session\<close>

text \<open>
  \<^verbatim>\<open>db.session\<close>: the committed database and the content the open transaction sees.
  \<^verbatim>\<open>add\<close> and \<^verbatim>\<open>delete\<close> change the pending content only, \<^verbatim>\<open>rollback\<close> discards it,
  \<^verbatim>\<open>commit\<close> makes it the committed content. After the request only \<open>committed\<close> is left.
\<close>

record 'f session =
  committed :: "'f database"
  pending :: "'f database"

definition begin_session :: "'f database \<Rightarrow> 'f session" where
  "begin_session db = \<lparr>committed = db, pending = db\<rparr>"

definition rollback :: "'f session \<Rightarrow> 'f session" where
  "rollback s = s\<lparr>pending := committed s\<rparr>"

definition commit :: "'f session \<Rightarrow> 'f session" where
  "commit s = s\<lparr>committed := pending s\<rparr>"




definition add_order :: "'f order \<Rightarrow> 'f session \<Rightarrow> 'f session" where
  "add_order o' s = s\<lparr>pending := (pending s)\<lparr>orders := orders (pending s) @ [o']\<rparr>\<rparr>"

definition add_wishlist :: "wishlist \<Rightarrow> 'f session \<Rightarrow> 'f session" where
  "add_wishlist w s = s\<lparr>pending := (pending s)\<lparr>wishlists := wishlists (pending s) @ [w]\<rparr>\<rparr>"

definition delete_wishlist :: "wishlist \<Rightarrow> 'f session \<Rightarrow> 'f session" where
  "delete_wishlist w s =
     s\<lparr>pending := (pending s)\<lparr>wishlists :=
        filter (\<lambda>x. wishlist_id x \<noteq> wishlist_id w) (wishlists (pending s))\<rparr>\<rparr>"

text \<open>
  An exception that leaves the handler: the request ends with status 500 and the
  teardown of the request removes the session, which rolls the open transaction back.
\<close>

definition unhandled :: "pyexn \<Rightarrow> 'f session \<Rightarrow> 'f response \<times> 'f session" where
  "unhandled e s = (Unhandled e, rollback s)"

definition error_body :: "string \<Rightarrow> 'f json" where
  "error_body m = JObj [(''error'', JStr m)]"

definition message_body :: "string \<Rightarrow> 'f json" where
  "message_body m = JObj [(''message'', JStr m)]"

fun json_opt_str :: "string option \<Rightarrow> 'f json" where
  "json_opt_str None = JNull"
| "json_opt_str (Some s) = JStr s"

fun json_opt_int :: "int option \<Rightarrow> 'f json" where
  "json_opt_int None = JNull"
| "json_opt_int (Some i) = JInt i"

fun json_opt_float :: "'f option \<Rightarrow> 'f json" where
  "json_opt_float None = JNull"
| "json_opt_float (Some x) = JFloat x"

definition invalid_user_id :: "'f response" where
  "invalid_user_id = Response 400 (error_body ''Invalid user ID format'')"

subsection \<open>\<^verbatim>\<open>to_dict\<close> of the models\<close>

definition animal_to_dict :: "'f env \<Rightarrow> 'f animal \<Rightarrow> 'f json" where
  "animal_to_dict env a = JObj
     [(''id'', JStr (str_int (animal_id a))),
      (''species'', JStr (animal_species a)),
      (''breed'', json_opt_str (animal_breed a)),
      (''age'', json_opt_int (animal_age a)),
      (''weight'', json_opt_float (animal_weight a)),
      (''price'', JFloat (float_of_decimal env (animal_price a))),
      (''status'', json_opt_str (animal_status a)),
      (''image_url'', json_opt_str (animal_image_url a))]"

definition order_to_dict :: "'f env \<Rightarrow> 'f order \<Rightarrow> 'f json" where
  "order_to_dict env o' = JObj
     [(''id'', JStr (str_int (order_id o'))),
      (''buyer_id'', JStr (str_int (order_buyer_id o'))),
      (''items'', order_items o'),
      (''total_amount'', JFloat (float_of_decimal env (order_total_amount o'))),
      (''status'', json_opt_str (order_status o')),
      (''payment_method'', json_opt_str (order_payment_method o')),
      (''created_at'', JStr (isoformat env (order_created_at o')))]"

text \<open>\<^verbatim>\<open>self.animal\<close> is the row of \<^verbatim>\<open>animals\<close> the foreign key names, if there is one.\<close>

definition wishlist_to_dict :: "'f env \<Rightarrow> 'f database \<Rightarrow> wishlist \<Rightarrow> 'f json" where
  "wishlist_to_dict env db w = JObj
     [(''id'', JStr (str_int (wishlist_id w))),
      (''user_id'', JStr (str_uuid env (wishlist_user_id w))),
      (''animal_id'', JStr (str_int (wishlist_animal_id w))),
      (''animal'',
         (case find (\<lambda>a. animal_id a = wishlist_animal_id w) (animals db) of
            None \<Rightarrow> JNull
          | Some a \<Rightarrow> animal_to_dict env a)),
      (''created_at'', JStr (isoformat env (wishlist_created_at w)))]"

section \<open>\<^verbatim>\<open>app/orders/routes.py\<close>\<close>

text \<open>
  Every handler below runs behind \<^verbatim>\<open>@jwt_required()\<close>: \<open>ident\<close> is the subject claim
  \<^verbatim>\<open>get_jwt_identity()\<close> returns once the token has been verified.
\<close>

definition get_my_orders :: "'f env \<Rightarrow> 'f session \<Rightarrow> string \<Rightarrow> 'f response \<times> 'f session" where
  "get_my_orders env s ident =
     (case UUID env ident of
        None \<Rightarrow> (invalid_user_id, s)
      | Some current_user_id \<Rightarrow>
          (case find (\<lambda>b. buyer_user_id b = current_user_id) (buyers (pending s)) of
             None \<Rightarrow> (Response 404 (message_body ''No buyer profile found for this user''), s)
           | Some b \<Rightarrow>
               (Response 200
                  (JArr (map (order_to_dict env)
                     (filter (\<lambda>x. order_buyer_id x = buyer_id b) (orders (pending s))))), s)))"

text \<open>
  The body of \<^verbatim>\<open>POST /orders\<close>: the four keys the handler reads, and whatever else the
  client sent (\<open>p_other\<close>, for instance a \<^verbatim>\<open>buyer_id\<close>). \<open>p_items\<close> is \<open>None\<close> when the key
  is absent; the amount is in hundredths.
\<close>

record 'f order_payload =
  p_items :: "'f json option"
  p_total_amount :: "int field"
  p_status :: "string field"
  p_payment_method :: "string field"
  p_other :: "(string \<times> 'f json) list"

text \<open>\<^verbatim>\<open>data.get(k, d)\<close>: the default only when the key is absent.\<close>

fun get_default :: "'a field \<Rightarrow> 'a \<Rightarrow> 'a option" where
  "get_default Absent d = Some d"
| "get_default Null d = None"
| "get_default (Given x) d = Some x"

text \<open>
  The row \<^verbatim>\<open>Order(buyer_id=buyer.id, items=data["items"], ...)\<close> becomes once inserted:
  the key and the timestamp come from the database and the clock, \<^verbatim>\<open>buyer_id\<close> from the
  buyer profile the handler found, \<^verbatim>\<open>status\<close> and \<^verbatim>\<open>payment_method\<close> from
  \<^verbatim>\<open>data.get("status", "paid")\<close> and \<^verbatim>\<open>data.get("payment_method", "mpesa")\<close>.
\<close>

definition new_order :: "world \<Rightarrow> buyer \<Rightarrow> 'f json \<Rightarrow> int \<Rightarrow> 'f order_payload \<Rightarrow> 'f order" where
  "new_order w b its amount data = \<lparr>
     order_id = next_id w,
     order_buyer_id = buyer_id b,
     order_items = its,
     order_total_amount = amount,
     order_status = insert_default order_status_default (get_default (p_status data) ''paid''),
     order_payment_method = insert_default order_payment_method_default
        (get_default (p_payment_method data) ''mpesa''),
     order_created_at = utcnow w,
     order_updated_at = Some (utcnow w)\<rparr>"

text \<open>
  \<^verbatim>\<open>not data\<close> holds for no body and for the empty object; in the empty object
  \<^verbatim>\<open>"items"\<close> is absent, so the second test of the disjunction covers it.
  A \<^verbatim>\<open>null\<close> amount violates \<^verbatim>\<open>nullable=False\<close> when the commit inserts the row.
\<close>

definition create_order ::
  "'f env \<Rightarrow> world \<Rightarrow> 'f session \<Rightarrow> string \<Rightarrow> 'f order_payload option \<Rightarrow> 'f response \<times> 'f session" where
  "create_order env w s ident body =
     (case UUID env ident of
        None \<Rightarrow> (invalid_user_id, s)
      | Some current_user_id \<Rightarrow>
          (case find (\<lambda>b. buyer_user_id b = current_user_id) (buyers (pending s)) of
             None \<Rightarrow> (Response 404 (message_body ''No buyer profile found for this user''), s)
           | Some b \<Rightarrow>
               (case body of
                  None \<Rightarrow> (Response 400 (message_body ''Missing required fields: items, total_amount''), s)
                | Some data \<Rightarrow>
                    (case p_items data of
                       None \<Rightarrow> (Response 400 (message_body ''Missing required fields: items, total_amount''), s)
                     | Some its \<Rightarrow>
                         if \<not> present (p_total_amount data)
                         then (Response 400 (message_body ''Missing required fields: items, total_amount''), s)
                         else
                           (case get (p_total_amount data) of
                              None \<Rightarrow> unhandled IntegrityError s
                            | Some amount \<Rightarrow>
                                let order = new_order w b its amount data
                                in if \<not> commit_ok w then unhandled DatabaseError s
                                   else (Response 201 (JObj
                                           [(''message'', JStr ''Order created successfully''),
                                            (''order'', order_to_dict env order)]),
                                         commit (add_order order s)))))))"

text \<open>
  \<open>order_id\<close> is the path segment, a string; the query compares it with the integer key.
\<close>

definition get_order :: "'f env \<Rightarrow> 'f session \<Rightarrow> string \<Rightarrow> string \<Rightarrow> 'f response \<times> 'f session" where
  "get_order env s ident oid =
     (case UUID env ident of
        None \<Rightarrow> (invalid_user_id, s)
      | Some current_user_id \<Rightarrow>
          (case find (\<lambda>b. buyer_user_id b = current_user_id) (buyers (pending s)) of
             None \<Rightarrow> (Response 404 (message_body ''No buyer profile found for this user''), s)
           | Some b \<Rightarrow>
               (case pg_int4 env oid of
                  None \<Rightarrow> unhandled DatabaseError s
                | Some n \<Rightarrow>
                    (case find (\<lambda>x. order_id x = n \<and> order_buyer_id x = buyer_id b) (orders (pending s)) of
                       None \<Rightarrow> (Response 404 (message_body ''Order not found or access denied''), s)
                     | Some x \<Rightarrow> (Response 200 (order_to_dict env x), s)))))"

text \<open>
  Python numbers: \<^verbatim>\<open>sum\<close> starts from the integer 0, and \<^verbatim>\<open>round(x, 2)\<close> of an integer
  is that integer.
\<close>

datatype 'f pynum = PInt int | PFloat 'f

fun py_add :: "'f env \<Rightarrow> 'f pynum \<Rightarrow> 'f pynum \<Rightarrow> 'f pynum" where
  "py_add env (PInt a) (PInt b) = PInt (a + b)"
| "py_add env (PInt a) (PFloat y) = PFloat (float_add env (float_of_int env a) y)"
| "py_add env (PFloat x) (PInt b) = PFloat (float_add env x (float_of_int env b))"
| "py_add env (PFloat x) (PFloat y) = PFloat (float_add env x y)"

definition py_sum :: "'f env \<Rightarrow> 'f pynum list \<Rightarrow> 'f pynum" where
  "py_sum env xs = foldl (py_add env) (PInt 0) xs"

fun py_round2 :: "'f env \<Rightarrow> 'f pynum \<Rightarrow> 'f pynum" where
  "py_round2 env (PInt i) = PInt i"
| "py_round2 env (PFloat x) = PFloat (float_round2 env x)"

fun json_num :: "'f pynum \<Rightarrow> 'f json" where
  "json_num (PInt i) = JInt i"
| "json_num (PFloat x) = JFloat x"

definition get_order_stats :: "'f env \<Rightarrow> 'f session \<Rightarrow> string \<Rightarrow> 'f response \<times> 'f session" where
  "get_order_stats env s ident =
     (case UUID env ident of
        None \<Rightarrow> (invalid_user_id, s)
      | Some current_user_id \<Rightarrow>
          (case find (\<lambda>b. buyer_user_id b = current_user_id) (buyers (pending s)) of
             None \<Rightarrow> (Response 200 (JObj [(''total_orders'', JInt 0), (''total_spent'', JInt 0)]), s)
           | Some b \<Rightarrow>
               let os = filter (\<lambda>x. order_buyer_id x = buyer_id b) (orders (pending s));
                   total_orders = int (length os);
                   total_spent = py_sum env (map (\<lambda>x. PFloat (float_of_decimal env (order_total_amount x))) os)
               in (Response 200 (JObj
                     [(''total_orders'', JInt total_orders),
                      (''total_spent'', json_num (py_round2 env total_spent))]), s)))"


section \<open>\<^verbatim>\<open>app/wishlist/routes.py\<close>\<close>

definition get_my_wishlist :: "'f env \<Rightarrow> 'f session \<Rightarrow> string \<Rightarrow> 'f response \<times> 'f session" where
  "get_my_wishlist env s ident =
     (case UUID env ident of
        None \<Rightarrow> (invalid_user_id, s)
      | Some current_user_id \<Rightarrow>
          (Response 200
             (JArr (map (wishlist_to_dict env (pending s))
                (filter (\<lambda>x. wishlist_user_id x = current_user_id) (wishlists (pending s))))), s))"

text \<open>
  The \<^verbatim>\<open>animal_id\<close> of the body is a JSON integer or a string the database reads as one.
\<close>

datatype idval = IdInt int | IdStr string

fun id_param :: "'f env \<Rightarrow> idval \<Rightarrow> int option" where
  "id_param env (IdInt n) = Some n"
| "id_param env (IdStr x) = pg_int4 env x"

record wishlist_payload =
  p_animal_id :: "idval field"

text \<open>The row \<^verbatim>\<open>Wishlist(user_id=current_user_id, animal_id=animal_id)\<close> becomes once inserted.\<close>

definition new_wishlist :: "world \<Rightarrow> uuid \<Rightarrow> int \<Rightarrow> wishlist" where
  "new_wishlist w current_user_id aid = \<lparr>
     wishlist_id = next_id w,
     wishlist_user_id = current_user_id,
     wishlist_animal_id = aid,
     wishlist_created_at = utcnow w,
     wishlist_updated_at = Some (utcnow w)\<rparr>"

text \<open>
  A \<^verbatim>\<open>null\<close> \<^verbatim>\<open>animal_id\<close> matches no row in the duplicate check (the column is not
  nullable) and makes the INSERT fail; that failure, like any other failure of the
  commit, is caught by the handler.
\<close>

definition add_to_wishlist ::
  "'f env \<Rightarrow> world \<Rightarrow> 'f session \<Rightarrow> string \<Rightarrow> wishlist_payload option \<Rightarrow> 'f response \<times> 'f session" where
  "add_to_wishlist env w s ident body =
     (case UUID env ident of
        None \<Rightarrow> (invalid_user_id, s)
      | Some current_user_id \<Rightarrow>
          (case body of
             None \<Rightarrow> (Response 400 (message_body ''Missing required field: animal_id''), s)
           | Some data \<Rightarrow>
               (case p_animal_id data of
                  Absent \<Rightarrow> (Response 400 (message_body ''Missing required field: animal_id''), s)
                | Null \<Rightarrow>
                    (Response 500 (JObj [(''error'', JStr ''Backend Crash''), (''details'', JStr (exn_text w))]),
                     rollback s)
                | Given v \<Rightarrow>
                    (case id_param env v of
                       None \<Rightarrow> unhandled DatabaseError s
                     | Some aid \<Rightarrow>
                         (case find (\<lambda>x. wishlist_user_id x = current_user_id \<and> wishlist_animal_id x = aid)
                                 (wishlists (pending s)) of
                            Some existing \<Rightarrow> (Response 200 (message_body ''Item already in wishlist''), s)
                          | None \<Rightarrow>
                              let wishlist_item = new_wishlist w current_user_id aid
                              in if \<not> commit_ok w
                                 then (Response 500 (JObj [(''error'', JStr ''Backend Crash''),
                                                           (''details'', JStr (exn_text w))]),
                                       rollback (add_wishlist wishlist_item s))
                                 else
                                   let s' = commit (add_wishlist wishlist_item s)
                                   in (Response 201 (JObj
                                         [(''message'', JStr ''Added to wishlist''),
                                          (''item'', wishlist_to_dict env (pending s') wishlist_item)]),
                                       s'))))))"

definition remove_from_wishlist ::
  "'f env \<Rightarrow> world \<Rightarrow> 'f session \<Rightarrow> string \<Rightarrow> string \<Rightarrow> 'f response \<times> 'f session" where
  "remove_from_wishlist env w s ident item_id =
     (case UUID env ident of
        None \<Rightarrow> (invalid_user_id, s)
      | Some current_user_id \<Rightarrow>
          (case pg_int4 env item_id of
             None \<Rightarrow> unhandled DatabaseError s
           | Some n \<Rightarrow>
               (case find (\<lambda>x. wishlist_id x = n \<and> wishlist_user_id x = current_user_id)
                       (wishlists (pending s)) of
                  None \<Rightarrow> (Response 404 (message_body ''Wishlist item not found or access denied''), s)
                | Some item \<Rightarrow>
                    if \<not> commit_ok w then unhandled DatabaseError (delete_wishlist item s)
                    else (Response 200 (message_body ''Removed from wishlist''),
                          commit (delete_wishlist item s)))))"

definition check_in_wishlist :: "'f env \<Rightarrow> 'f session \<Rightarrow> string \<Rightarrow> string \<Rightarrow> 'f response \<times> 'f session" where
  "check_in_wishlist env s ident aid_str =
     (case UUID env ident of
        None \<Rightarrow> (invalid_user_id, s)
      | Some current_user_id \<Rightarrow>
          (case pg_int4 env aid_str of
             None \<Rightarrow> unhandled DatabaseError s
           | Some aid \<Rightarrow>
               let item = find (\<lambda>x. wishlist_user_id x = current_user_id \<and> wishlist_animal_id x = aid)
                            (wishlists (pending s))
               in (Response 200 (JObj [(''in_wishlist'', JBool (item \<noteq> None))]), s)))"

definition get_wishlist_count :: "'f env \<Rightarrow> 'f session \<Rightarrow> string \<Rightarrow> 'f response \<times> 'f session" where
  "get_wishlist_count env s ident =
     (case UUID env ident of
        None \<Rightarrow> (invalid_user_id, s)
      | Some current_user_id \<Rightarrow>
          let count = int (length (filter (\<lambda>x. wishlist_user_id x = current_user_id) (wishlists (pending s))))
          in (Response 200 (JObj [(''count'', JInt count)]), s))"

section \<open>\<^verbatim>\<open>app/auth/views.py\<close>\<close>






definition user_json :: "'f env \<Rightarrow> user \<Rightarrow> (string \<times> 'f json) list" where
  "user_json env u =
     [(''id'', JStr (str_uuid env (user_id u))),
      (''email'', JStr (user_email u)),
      (''role'', JStr (role_value (user_role u))),
      (''full_name'', json_opt_str (user_full_name u)),
      (''phone_number'', json_opt_str (user_phone_number u)),
      (''location'', json_opt_str (user_location u))]"


definition get_current_user :: "'f env \<Rightarrow> 'f session \<Rightarrow> string \<Rightarrow> 'f response \<times> 'f session" where
  "get_current_user env s ident =
     (case UUID env ident of
        None \<Rightarrow> (invalid_user_id, s)
      | Some user_id_uuid \<Rightarrow>
          (case find (\<lambda>u. user_id u = user_id_uuid) (users (pending s)) of
             None \<Rightarrow> (Response 404 (error_body ''User not found''), s)
           | Some u \<Rightarrow>
               (Response 200 (JObj (user_json env u @
                  [(''created_at'', JStr (isoformat env (user_created_at u)))])), s)))"

section \<open>The protected endpoints\<close>

text \<open>
  The routes registered with \<^verbatim>\<open>@jwt_required()\<close>, each with what the request carries
  besides the credential.
\<close>

datatype 'f endpoint =
    GetMe
  | GetOrders
  | PostOrders "'f order_payload option"
  | GetOrder string
  | GetOrderStats
  | GetWishlist
  | PostWishlist "wishlist_payload option"
  | DeleteWishlist string
  | GetWishlistCheck string
  | GetWishlistCount

fun protected :: "'f env \<Rightarrow> world \<Rightarrow> 'f session \<Rightarrow> string \<Rightarrow> 'f endpoint \<Rightarrow> 'f response \<times> 'f session" where
  "protected env w s ident GetMe = get_current_user env s ident"
| "protected env w s ident GetOrders = get_my_orders env s ident"
| "protected env w s ident (PostOrders body) = create_order env w s ident body"
| "protected env w s ident (GetOrder oid) = get_order env s ident oid"
| "protected env w s ident GetOrderStats = get_order_stats env s ident"
| "protected env w s ident GetWishlist = get_my_wishlist env s ident"
| "protected env w s ident (PostWishlist body) = add_to_wishlist env w s ident body"
| "protected env w s ident (DeleteWishlist item_id) = remove_from_wishlist env w s ident item_id"
| "protected env w s ident (GetWishlistCheck aid) = check_in_wishlist env s ident aid"
| "protected env w s ident GetWishlistCount = get_wishlist_count env s ident"

text \<open>
  A request from start to end: it opens a session on the committed database, runs the
  handler, and leaves the committed database behind.
\<close>

definition run :: "('f session \<Rightarrow> 'f response \<times> 'f session) \<Rightarrow> 'f database \<Rightarrow> 'f response \<times> 'f database" where
  "run handler db = (let (r, s') = handler (begin_session db) in (r, committed s'))"


section \<open>Ownership\<close>

text \<open>
  The user an order belongs to: the user of the \<^verbatim>\<open>Buyer\<close> row its foreign key
  \<^verbatim>\<open>buyer_id\<close> names. A wishlist entry carries its user directly.
\<close>

definition order_owner :: "'f database \<Rightarrow> 'f order \<Rightarrow> uuid option" where
  "order_owner db x = map_option buyer_user_id (find (\<lambda>b. buyer_id b = order_buyer_id x) (buyers db))"

section \<open>Notions the statements use\<close>




text \<open>The orders of a buyer profile, and the aggregate the specification describes for them.\<close>

definition mine :: "buyer \<Rightarrow> 'f order list \<Rightarrow> 'f order list" where
  "mine b os = filter (\<lambda>x. order_buyer_id x = buyer_id b) os"

text \<open>
  The sum of the amounts as floats, added from the left starting at 0 and rounded to two
  decimals; with no order at all the sum is the integer 0.
\<close>

definition sum_of_total_amount_rounded :: "'f env \<Rightarrow> 'f order list \<Rightarrow> 'f json" where
  "sum_of_total_amount_rounded env os =
     (if os = [] then JInt 0
      else JFloat (float_round2 env
             (foldl (float_add env) (float_of_int env 0)
                (map (\<lambda>x. float_of_decimal env (order_total_amount x)) os))))"

text \<open>
  The same \<^verbatim>\<open>POST /wishlist\<close> sent once per element of \<open>ws\<close>, each request on the database
  the one before left behind.
\<close>

definition post_wishlist_repeatedly ::
  "'f env \<Rightarrow> world list \<Rightarrow> 'f database \<Rightarrow> string \<Rightarrow> wishlist_payload option \<Rightarrow> 'f database" where
  "post_wishlist_repeatedly env ws db ident body =
     foldl (\<lambda>d w. snd (run (\<lambda>s. add_to_wishlist env w s ident body) d)) db ws"

text \<open>The number of wishlist entries stored for a user.\<close>

definition count_for :: "uuid \<Rightarrow> 'f database \<Rightarrow> nat" where
  "count_for uid db = length (filter (\<lambda>x. wishlist_user_id x = uid) (wishlists db))"


section \<open>An example installation\<close>

text \<open>
  A concrete environment and database on which the theorems below are instantiated.
  Floats are played by integers (hundredths), the UUID parser knows two identities.
\<close>

fun nat_of_digits :: "string \<Rightarrow> nat \<Rightarrow> nat option" where
  "nat_of_digits [] acc = Some acc"
| "nat_of_digits (c # cs) acc =
     (let n = (of_char c :: nat)
      in if 48 \<le> n \<and> n \<le> 57 then nat_of_digits cs (10 * acc + (n - 48)) else None)"

definition alice_ident :: string where
  "alice_ident = ''00000000-0000-4000-8000-00000000000a''"

definition bob_ident :: string where
  "bob_ident = ''00000000-0000-4000-8000-00000000000b''"

definition carol_ident :: string where
  "carol_ident = ''00000000-0000-4000-8000-00000000000c''"

definition example_env :: "int env" where
  "example_env = \<lparr>
     UUID = (\<lambda>x. if x = alice_ident then Some 10
                 else if x = bob_ident then Some 11
                 else if x = carol_ident then Some 12 else None),
     str_uuid = (\<lambda>u. if u = 10 then alice_ident else if u = 11 then bob_ident else carol_ident),
     check_password_hash = (\<lambda>h p. case p of None \<Rightarrow> None | Some x \<Rightarrow> Some (h = ''hash:'' @ x)),
     isoformat = (\<lambda>t. ''T'' @ digits t),
     float_of_decimal = (\<lambda>d. d),
     float_of_int = (\<lambda>i. 100 * i),
     float_add = (\<lambda>x y. x + y),
     float_round2 = (\<lambda>x. x),
     pg_int4 = (\<lambda>x. if x = [] then None else map_option int (nat_of_digits x 0))\<rparr>"

definition example_world :: world where
  "example_world = \<lparr>
     uuid4 = 13,
     generate_password_hash = (\<lambda>p. ''hash:'' @ p),
     create_access_token = (\<lambda>i r. ''token:'' @ i @ '':'' @ r),
     utcnow = 1000,
     next_id = 7,
     flush_ok = True,
     commit_ok = True,
     exn_text = ''connection lost''\<rparr>"

definition alice :: user where
  "alice = \<lparr>user_id = 10, user_email = ''alice@x.com'', user_password_hash = ''hash:pw-alice'',
     user_role = BUYER, user_is_active = Some True, user_full_name = Some ''Alice'',
     user_phone_number = None, user_location = None, user_created_at = 1, user_updated_at = Some 1\<rparr>"

definition bob :: user where
  "bob = \<lparr>user_id = 11, user_email = ''bob@x.com'', user_password_hash = ''hash:pw-bob'',
     user_role = BUYER, user_is_active = Some True, user_full_name = Some ''Bob'',
     user_phone_number = None, user_location = None, user_created_at = 2, user_updated_at = Some 2\<rparr>"

definition carol :: user where
  "carol = \<lparr>user_id = 12, user_email = ''carol@x.com'', user_password_hash = ''hash:pw-carol'',
     user_role = FARMER, user_is_active = Some True, user_full_name = None,
     user_phone_number = None, user_location = None, user_created_at = 3, user_updated_at = Some 3\<rparr>"

definition alice_buyer :: buyer where
  "alice_buyer = \<lparr>buyer_id = 1, buyer_user_id = 10, buyer_delivery_address = None,
     buyer_preferred_contact = None, buyer_created_at = 1, buyer_updated_at = Some 1\<rparr>"

definition bob_buyer :: buyer where
  "bob_buyer = \<lparr>buyer_id = 2, buyer_user_id = 11, buyer_delivery_address = None,
     buyer_preferred_contact = None, buyer_created_at = 2, buyer_updated_at = Some 2\<rparr>"

definition cow :: "int animal" where
  "cow = \<lparr>animal_id = 1, animal_farmer_id = 1, animal_species = ''Cow'', animal_breed = None,
     animal_age = Some 24, animal_weight = None, animal_price = 18500000,
     animal_status = Some ''available'', animal_image_url = None, animal_created_at = 3,
     animal_updated_at = Some 3\<rparr>"

definition alice_order :: "int order" where
  "alice_order = \<lparr>order_id = 1, order_buyer_id = 1, order_items = JArr [],
     order_total_amount = 1250, order_status = Some ''paid'',
     order_payment_method = Some ''mpesa'', order_created_at = 4,
     order_updated_at = Some 4\<rparr>"

definition bob_order :: "int order" where
  "bob_order = \<lparr>order_id = 2, order_buyer_id = 2, order_items = JArr [],
     order_total_amount = 18500000, order_status = Some ''paid'',
     order_payment_method = Some ''mpesa'', order_created_at = 5,
     order_updated_at = Some 5\<rparr>"

definition bob_wish :: wishlist where
  "bob_wish = \<lparr>wishlist_id = 3, wishlist_user_id = 11, wishlist_animal_id = 1, wishlist_created_at = 6,
     wishlist_updated_at = Some 6\<rparr>"

definition carol_farm :: farmer where
  "carol_farm = \<lparr>farmer_id = 1, farmer_user_id = 12, farmer_farm_name = ''Hill Farm'',
     farmer_location = ''Eldoret'', farmer_phone_number = ''+254700000001'',
     farmer_is_verified = Some False, farmer_created_at = 3, farmer_updated_at = Some 3\<rparr>"

text \<open>
  Alice and Bob are buyers with one order each; Carol is a farmer and has no buyer profile.
\<close>

definition example_db :: "int database" where
  "example_db = \<lparr>users = [alice, bob, carol], farmers = [carol_farm], buyers = [alice_buyer, bob_buyer],
     animals = [cow], orders = [alice_order, bob_order], wishlists = [bob_wish]\<rparr>"








definition order_without_status :: "int order_payload" where
  "order_without_status = \<lparr>p_items = Some (JArr [JObj [(''animal_id'', JInt 1), (''name'', JStr ''Cow'')]]),
     p_total_amount = Given 18500000, p_status = Absent, p_payment_method = Absent,
     p_other = [(''buyer_id'', JInt 2)]\<rparr>"


definition wish_for_cow :: wishlist_payload where
  "wish_for_cow = \<lparr>p_animal_id = Given (IdInt 1)\<rparr>"

definition failing_world :: world where
  "failing_world = example_world\<lparr>commit_ok := False\<rparr>"

section \<open>Auxiliary facts about queries\<close>

lemma find_SomeD: "find P xs = Some x \<Longrightarrow> x \<in> set xs \<and> P x"
  by (induction xs) (auto split: if_splits)

lemma find_None_conv: "find P xs = None \<longleftrightarrow> (\<forall>x \<in> set xs. \<not> P x)"
  by (induction xs) auto

lemma distinct_map_key:
  "distinct (map f xs) \<Longrightarrow> x \<in> set xs \<Longrightarrow> y \<in> set xs \<Longrightarrow> f x = f y \<Longrightarrow> x = y"
  by (auto simp: distinct_map dest: inj_onD)

lemma find_Some_ex: "x \<in> set xs \<Longrightarrow> P x \<Longrightarrow> \<exists>y. find P xs = Some y"
  by (cases "find P xs") (auto simp: find_None_conv)

section \<open>Isolation of orders and wishlist entries\<close>



section \<open>Missing buyer profile\<close>

text \<open>
  C8, as the claim states it, fails: Carol is authenticated and has no buyer profile, and
  \<^verbatim>\<open>GET /orders\<close> answers her with status 404, not with an empty list.
\<close>

theorem no_buyer_profile_counterexample:
  "UUID example_env carol_ident = Some 12 \<and>
   find (\<lambda>b. buyer_user_id b = 12) (buyers example_db) = None \<and>
   fst (run (\<lambda>s. get_my_orders example_env s carol_ident) example_db) =
     Response 404 (message_body ''No buyer profile found for this user'') \<and>
   fst (run (\<lambda>s. get_my_orders example_env s carol_ident) example_db) \<noteq> Response 200 (JArr [])"
  by code_simp

text \<open>
  C8, amended. For an authenticated user with no buyer profile, \<^verbatim>\<open>GET /orders\<close> answers
  404 with the message "No buyer profile found for this user", as \<^verbatim>\<open>GET /orders/{id}\<close> and
  \<^verbatim>\<open>POST /orders\<close> do; of the order endpoints only \<^verbatim>\<open>GET /orders/stats\<close> treats the missing
  profile as an empty result and answers 200 with zeros. None of them changes anything.
\<close>

theorem no_buyer_profile:
  assumes "UUID env ident = Some uid"
    and "find (\<lambda>b. buyer_user_id b = uid) (buyers (pending s)) = None"
  shows "get_my_orders env s ident =
           (Response 404 (message_body ''No buyer profile found for this user''), s) \<and>
         get_order env s ident oid =
           (Response 404 (message_body ''No buyer profile found for this user''), s) \<and>
         create_order env w s ident body =
           (Response 404 (message_body ''No buyer profile found for this user''), s) \<and>
         get_order_stats env s ident =
           (Response 200 (JObj [(''total_orders'', JInt 0), (''total_spent'', JInt 0)]), s)"
  using assms
  by (simp add: get_my_orders_def get_order_def create_order_def get_order_stats_def)

theorem no_buyer_profile_witness:
  "get_my_orders example_env (begin_session example_db) carol_ident =
     (Response 404 (message_body ''No buyer profile found for this user''), begin_session example_db) \<and>
   get_order_stats example_env (begin_session example_db) carol_ident =
     (Response 200 (JObj [(''total_orders'', JInt 0), (''total_spent'', JInt 0)]),
      begin_session example_db)"
proof -
  have 1: "UUID example_env carol_ident = Some 12"
    by code_simp
  have 2: "find (\<lambda>b. buyer_user_id b = 12) (buyers (pending (begin_session example_db))) = None"
    by code_simp
  from no_buyer_profile [OF 1 2] show ?thesis
    by simp
qed

section \<open>Malformed identity\<close>

text \<open>
  C9. On every protected endpoint, a subject claim that \<^verbatim>\<open>uuid.UUID\<close> rejects is answered
  with status 400 and the body "Invalid user ID format". The answer is the same whatever
  the database holds and whatever else the request carries, and the session is returned
  as it was: the handler has not touched the database.
\<close>

theorem malformed_identity:
  assumes "UUID env ident = None"
  shows "protected env w s ident ep = (Response 400 (error_body ''Invalid user ID format''), s) \<and>
         fst (protected env w s ident ep) = fst (protected env w' s' ident ep)"
  using assms
  by (cases ep)
     (simp_all add: get_current_user_def get_my_orders_def create_order_def get_order_def
        get_order_stats_def get_my_wishlist_def add_to_wishlist_def remove_from_wishlist_def
        check_in_wishlist_def get_wishlist_count_def invalid_user_id_def)

theorem malformed_identity_witness:
  "protected example_env example_world (begin_session example_db) ''not-a-uuid'' GetOrders =
     (Response 400 (error_body ''Invalid user ID format''), begin_session example_db) \<and>
   protected example_env example_world (begin_session example_db) ''not-a-uuid'' (DeleteWishlist ''3'') =
     (Response 400 (error_body ''Invalid user ID format''), begin_session example_db)"
proof -
  have 1: "UUID example_env ''not-a-uuid'' = None"
    by code_simp
  from malformed_identity [OF 1, of example_world "begin_session example_db" GetOrders]
    malformed_identity [OF 1, of example_world "begin_session example_db" "DeleteWishlist ''3''"]
  show ?thesis
    by simp
qed

section \<open>Registration\<close>









section \<open>Login\<close>



section \<open>Creating an order\<close>

lemmas order_defs = create_order_def run_def begin_session_def unhandled_def rollback_def
  commit_def add_order_def Let_def

text \<open>
  C3. When \<^verbatim>\<open>POST /orders\<close> succeeds for a caller whose token names user \<open>uid\<close>, exactly one
  order was added, and its \<^verbatim>\<open>buyer_id\<close> is the id of the buyer profile found for \<open>uid\<close>;
  with unique primary keys that order's owner is \<open>uid\<close>. Nothing the body carries besides
  the four keys the handler reads (a \<^verbatim>\<open>buyer_id\<close>, an owner) changes the outcome.
\<close>

theorem create_order_stamps_buyer:
  assumes ident: "UUID env ident = Some uid"
    and created: "status_code (fst (run (\<lambda>s. create_order env w s ident body) db)) = 201"
  shows "(\<exists>b x. find (\<lambda>b. buyer_user_id b = uid) (buyers db) = Some b \<and>
            snd (run (\<lambda>s. create_order env w s ident body) db) = db\<lparr>orders := orders db @ [x]\<rparr> \<and>
            order_buyer_id x = buyer_id b \<and> b \<in> set (buyers db) \<and> buyer_user_id b = uid \<and>
            (pk_unique db \<longrightarrow>
               order_owner (snd (run (\<lambda>s. create_order env w s ident body) db)) x = Some uid)) \<and>
         (\<forall>data other. body = Some data \<longrightarrow>
            run (\<lambda>s. create_order env w s ident (Some (data\<lparr>p_other := other\<rparr>))) db =
            run (\<lambda>s. create_order env w s ident body) db)"
proof -
  have owner: "order_owner (db\<lparr>orders := os\<rparr>) x = Some (buyer_user_id b)"
    if "pk_unique db" "b \<in> set (buyers db)" "order_buyer_id x = buyer_id b"
    for b :: buyer and x :: "'a order" and os
  proof -
    from that obtain b' where b': "find (\<lambda>c. buyer_id c = order_buyer_id x) (buyers db) = Some b'"
      using find_Some_ex [of b "buyers db" "\<lambda>c. buyer_id c = order_buyer_id x"] by auto
    then have "b' \<in> set (buyers db)" "buyer_id b' = buyer_id b"
      using that by (auto dest: find_SomeD)
    moreover from that have "distinct (map buyer_id (buyers db))"
      by (simp add: pk_unique_def)
    ultimately have "b' = b"
      using that by (auto dest: distinct_map_key)
    with b' show ?thesis
      by (simp add: order_owner_def)
  qed
  from ident created obtain b where b: "find (\<lambda>b. buyer_user_id b = uid) (buyers db) = Some b"
    by (auto simp: order_defs split: option.splits if_splits)
  then have bin: "b \<in> set (buyers db)" "buyer_user_id b = uid"
    by (auto dest: find_SomeD)
  have stamp: "order_buyer_id (new_order w b its amount data) = buyer_id b"
    for its :: "'a json" and amount and data :: "'a order_payload"
    by (simp add: new_order_def)
  from ident created b have "\<exists>x. snd (run (\<lambda>s. create_order env w s ident body) db) =
      db\<lparr>orders := orders db @ [x]\<rparr> \<and> order_buyer_id x = buyer_id b"
    by (auto simp: order_defs stamp split: option.splits if_splits)
  then obtain x where
    x: "snd (run (\<lambda>s. create_order env w s ident body) db) = db\<lparr>orders := orders db @ [x]\<rparr>"
      "order_buyer_id x = buyer_id b"
    by blast
  have "pk_unique db \<longrightarrow>
      order_owner (snd (run (\<lambda>s. create_order env w s ident body) db)) x = Some uid"
    using owner [of b x] bin x by simp
  with b bin x have first: "\<exists>b x. find (\<lambda>b. buyer_user_id b = uid) (buyers db) = Some b \<and>
            snd (run (\<lambda>s. create_order env w s ident body) db) = db\<lparr>orders := orders db @ [x]\<rparr> \<and>
            order_buyer_id x = buyer_id b \<and> b \<in> set (buyers db) \<and> buyer_user_id b = uid \<and>
            (pk_unique db \<longrightarrow>
               order_owner (snd (run (\<lambda>s. create_order env w s ident body) db)) x = Some uid)"
    by blast
  have second: "\<forall>data other. body = Some data \<longrightarrow>
            run (\<lambda>s. create_order env w s ident (Some (data\<lparr>p_other := other\<rparr>))) db =
            run (\<lambda>s. create_order env w s ident body) db"
    by (simp add: create_order_def run_def new_order_def split: option.splits)
  from first second show ?thesis
    by (rule conjI)
qed

text \<open>Alice orders and sends Bob's buyer id along; the new order carries her own.\<close>

theorem create_order_stamps_buyer_witness:
  "map order_buyer_id (orders (snd (run (\<lambda>s. create_order example_env example_world s alice_ident
      (Some order_without_status)) example_db))) = [1, 2, 1]"
proof -
  let ?r = "run (\<lambda>s. create_order example_env example_world s alice_ident (Some order_without_status)) example_db"
  have 1: "UUID example_env alice_ident = Some 10"
    by code_simp
  have 2: "status_code (fst ?r) = 201"
    by code_simp
  have 3: "find (\<lambda>b. buyer_user_id b = 10) (buyers example_db) = Some alice_buyer"
    by code_simp
  have 4: "map order_buyer_id (orders example_db) = [1, 2]" "buyer_id alice_buyer = 1"
    by code_simp+
  from create_order_stamps_buyer [OF 1 2] 3 obtain x where
    "snd ?r = example_db\<lparr>orders := orders example_db @ [x]\<rparr>" "order_buyer_id x = buyer_id alice_buyer"
    by auto
  with 4 show ?thesis
    by simp
qed



section \<open>Adding to the wishlist\<close>

lemmas wish_defs = add_to_wishlist_def run_def begin_session_def unhandled_def rollback_def
  commit_def add_wishlist_def Let_def

lemma add_to_wishlist_again:
  assumes "UUID env ident = Some uid" "body = Some data" "p_animal_id data = Given v"
    and "id_param env v = Some aid"
    and "x \<in> set (wishlists d)" "wishlist_user_id x = uid" "wishlist_animal_id x = aid"
  shows "run (\<lambda>s. add_to_wishlist env w s ident body) d =
           (Response 200 (message_body ''Item already in wishlist''), d)"
proof -
  from assms(5-7) obtain y where
    "find (\<lambda>x. wishlist_user_id x = uid \<and> wishlist_animal_id x = aid) (wishlists d) = Some y"
    using find_Some_ex [of x "wishlists d" "\<lambda>x. wishlist_user_id x = uid \<and> wishlist_animal_id x = aid"]
    by auto
  with assms(1-4) show ?thesis
    by (simp add: wish_defs)
qed

lemma add_to_wishlist_step:
  "snd (run (\<lambda>s. add_to_wishlist env w s ident body) db) = db \<or>
   (\<exists>item. snd (run (\<lambda>s. add_to_wishlist env w s ident body) db) =
        db\<lparr>wishlists := wishlists db @ [item]\<rparr> \<and>
      (\<forall>w' d. item \<in> set (wishlists d) \<longrightarrow>
         snd (run (\<lambda>s. add_to_wishlist env w' s ident body) d) = d))"
proof (cases "\<exists>uid data v aid. UUID env ident = Some uid \<and> body = Some data \<and>
    p_animal_id data = Given v \<and> id_param env v = Some aid \<and> commit_ok w \<and>
    find (\<lambda>x. wishlist_user_id x = uid \<and> wishlist_animal_id x = aid) (wishlists db) = None")
  case False
  then have "snd (run (\<lambda>s. add_to_wishlist env w s ident body) db) = db"
    by (auto simp: wish_defs split: option.splits field.splits)
  then show ?thesis ..
next
  case True
  then obtain uid data v aid where h: "UUID env ident = Some uid" "body = Some data"
      "p_animal_id data = Given v" "id_param env v = Some aid" "commit_ok w"
      "find (\<lambda>x. wishlist_user_id x = uid \<and> wishlist_animal_id x = aid) (wishlists db) = None"
    by blast
  let ?item = "new_wishlist w uid aid"
  from h have "snd (run (\<lambda>s. add_to_wishlist env w s ident body) db) =
      db\<lparr>wishlists := wishlists db @ [?item]\<rparr>"
    by (simp add: wish_defs)
  moreover have "snd (run (\<lambda>s. add_to_wishlist env w' s ident body) d) = d"
    if "?item \<in> set (wishlists d)" for w' d
    using add_to_wishlist_again [OF h(1-4) that, of w'] by (simp add: new_wishlist_def)
  ultimately show ?thesis
    by blast
qed

lemma post_wishlist_fixed:
  "(\<And>w'. snd (run (\<lambda>s. add_to_wishlist env w' s ident body) d) = d) \<Longrightarrow>
   post_wishlist_repeatedly env ws d ident body = d"
  by (induction ws) (simp_all add: post_wishlist_repeatedly_def)

lemma post_wishlist_count:
  "count_for u (post_wishlist_repeatedly env ws db ident body) \<le> count_for u db + 1"
proof (induction ws arbitrary: db)
  case Nil
  then show ?case by (simp add: post_wishlist_repeatedly_def)
next
  case (Cons w ws)
  let ?db1 = "snd (run (\<lambda>s. add_to_wishlist env w s ident body) db)"
  have unfold: "post_wishlist_repeatedly env (w # ws) db ident body =
      post_wishlist_repeatedly env ws ?db1 ident body"
    by (simp add: post_wishlist_repeatedly_def)
  from add_to_wishlist_step [of env w ident body db]
  show ?case
  proof
    assume "?db1 = db"
    with Cons.IH [of db] unfold show ?thesis by simp
  next
    assume "\<exists>item. ?db1 = db\<lparr>wishlists := wishlists db @ [item]\<rparr> \<and>
      (\<forall>w' d. item \<in> set (wishlists d) \<longrightarrow>
         snd (run (\<lambda>s. add_to_wishlist env w' s ident body) d) = d)"
    then obtain item where item: "?db1 = db\<lparr>wishlists := wishlists db @ [item]\<rparr>"
      and fixed: "\<And>w' d. item \<in> set (wishlists d) \<Longrightarrow>
         snd (run (\<lambda>s. add_to_wishlist env w' s ident body) d) = d"
      by blast
    from item have "item \<in> set (wishlists ?db1)" by simp
    then have "post_wishlist_repeatedly env ws ?db1 ident body = ?db1"
      by (intro post_wishlist_fixed fixed)
    with unfold item show ?thesis by (simp add: count_for_def)
  qed
qed

text \<open>
  C5. When the wishlist already holds an entry for the caller and the animal,
  \<^verbatim>\<open>POST /wishlist\<close> answers 200 "Item already in wishlist" and leaves the database as it
  was. However often the same request is repeated, and whichever of the commits fail, the
  number of entries stored for any user grows by at most one.
\<close>

theorem wishlist_insert_idempotent:
  "(\<forall>uid data v aid. UUID env ident = Some uid \<and> body = Some data \<and> p_animal_id data = Given v \<and>
       id_param env v = Some aid \<and>
       find (\<lambda>x. wishlist_user_id x = uid \<and> wishlist_animal_id x = aid) (wishlists db) \<noteq> None \<longrightarrow>
         run (\<lambda>s. add_to_wishlist env w s ident body) db =
           (Response 200 (message_body ''Item already in wishlist''), db)) \<and>
   count_for u (post_wishlist_repeatedly env ws db ident body) \<le> count_for u db + 1"
proof -
  have "run (\<lambda>s. add_to_wishlist env w s ident body) db =
           (Response 200 (message_body ''Item already in wishlist''), db)"
    if "UUID env ident = Some uid" "body = Some data" "p_animal_id data = Given v"
      "id_param env v = Some aid"
      "find (\<lambda>x. wishlist_user_id x = uid \<and> wishlist_animal_id x = aid) (wishlists db) \<noteq> None"
    for uid data v aid
    using that by (auto simp: wish_defs)
  then show ?thesis
    using post_wishlist_count [of u env ws db ident body] by blast
qed

text \<open>
  Bob asks for the cow he already has on his list; Alice asks for it three times, the
  second commit failing, and ends with one entry.
\<close>

theorem wishlist_insert_idempotent_witness:
  "run (\<lambda>s. add_to_wishlist example_env example_world s bob_ident (Some wish_for_cow)) example_db =
     (Response 200 (message_body ''Item already in wishlist''), example_db) \<and>
   count_for 10 example_db = 0 \<and>
   count_for 10 (post_wishlist_repeatedly example_env [example_world, failing_world, example_world]
     example_db alice_ident (Some wish_for_cow)) \<le> 1"
proof -
  have h: "UUID example_env bob_ident = Some 11" "p_animal_id wish_for_cow = Given (IdInt 1)"
      "id_param example_env (IdInt 1) = Some 1"
      "find (\<lambda>x. wishlist_user_id x = 11 \<and> wishlist_animal_id x = 1) (wishlists example_db) \<noteq> None"
    by code_simp+
  from wishlist_insert_idempotent [of example_env bob_ident "Some wish_for_cow" example_db
      example_world 10 "[]"] h
  have a: "run (\<lambda>s. add_to_wishlist example_env example_world s bob_ident (Some wish_for_cow)) example_db =
     (Response 200 (message_body ''Item already in wishlist''), example_db)"
    by blast
  have b: "count_for 10 example_db = 0"
    by code_simp
  from wishlist_insert_idempotent [of example_env alice_ident "Some wish_for_cow" example_db
      example_world 10 "[example_world, failing_world, example_world]"] b
  have c: "count_for 10 (post_wishlist_repeatedly example_env [example_world, failing_world, example_world]
     example_db alice_ident (Some wish_for_cow)) \<le> 1"
    by simp
  from a b c show ?thesis
    by blast
qed

section \<open>Order statistics\<close>

lemma py_sum_floats:
  "foldl (py_add env) (PFloat a) (map PFloat xs) = PFloat (foldl (float_add env) a xs)"
  by (induction xs arbitrary: a) simp_all

lemma py_sum_nonempty:
  "xs \<noteq> [] \<Longrightarrow> py_sum env (map PFloat xs) = PFloat (foldl (float_add env) (float_of_int env 0) xs)"
  by (cases xs) (simp_all add: py_sum_def py_sum_floats)

text \<open>
  C6. For a caller with a valid identity, \<^verbatim>\<open>GET /orders/stats\<close> answers 200. Without a buyer
  profile the body is \<^verbatim>\<open>{total_orders: 0, total_spent: 0}\<close>. With a buyer profile,
  \<^verbatim>\<open>total_orders\<close> is the number of orders whose \<^verbatim>\<open>buyer_id\<close> is that profile's id and
  \<^verbatim>\<open>total_spent\<close> is the sum of the amounts of exactly those orders, rounded to two
  decimals.
\<close>

theorem order_stats:
  assumes "UUID env ident = Some uid"
  shows "(find (\<lambda>b. buyer_user_id b = uid) (buyers (pending s)) = None \<longrightarrow>
            get_order_stats env s ident =
              (Response 200 (JObj [(''total_orders'', JInt 0), (''total_spent'', JInt 0)]), s)) \<and>
         (\<forall>b. find (\<lambda>b. buyer_user_id b = uid) (buyers (pending s)) = Some b \<longrightarrow>
            get_order_stats env s ident =
              (Response 200 (JObj
                 [(''total_orders'', JInt (int (length (mine b (orders (pending s)))))),
                  (''total_spent'', sum_of_total_amount_rounded env (mine b (orders (pending s))))]), s))"
proof -
  have "json_num (py_round2 env (py_sum env (map (\<lambda>x. PFloat (float_of_decimal env (order_total_amount x))) os)))
      = sum_of_total_amount_rounded env os" for os :: "'a order list"
  proof (cases "os = []")
    case True
    then show ?thesis by (simp add: py_sum_def sum_of_total_amount_rounded_def)
  next
    case False
    then have "py_sum env (map PFloat (map (\<lambda>x. float_of_decimal env (order_total_amount x)) os))
       = PFloat (foldl (float_add env) (float_of_int env 0) (map (\<lambda>x. float_of_decimal env (order_total_amount x)) os))"
      by (intro py_sum_nonempty) simp
    with False show ?thesis by (simp add: sum_of_total_amount_rounded_def comp_def)
  qed
  with assms show ?thesis
    by (simp add: get_order_stats_def mine_def Let_def)
qed

theorem order_stats_witness:
  "get_order_stats example_env (begin_session example_db) alice_ident =
     (Response 200 (JObj [(''total_orders'', JInt 1), (''total_spent'', JFloat 1250)]),
      begin_session example_db) \<and>
   get_order_stats example_env (begin_session example_db) carol_ident =
     (Response 200 (JObj [(''total_orders'', JInt 0), (''total_spent'', JInt 0)]),
      begin_session example_db)"
proof -
  let ?s = "begin_session example_db"
  have 1: "UUID example_env alice_ident = Some 10"
    by code_simp
  have 2: "find (\<lambda>b. buyer_user_id b = 10) (buyers (pending ?s)) = Some alice_buyer"
    by code_simp
  have 3: "int (length (mine alice_buyer (orders (pending ?s)))) = 1"
    by code_simp
  have 4: "sum_of_total_amount_rounded example_env (mine alice_buyer (orders (pending ?s))) = JFloat 1250"
    by code_simp
  have 5: "UUID example_env carol_ident = Some 12"
    by code_simp
  have 6: "find (\<lambda>b. buyer_user_id b = 12) (buyers (pending ?s)) = None"
    by code_simp
  from order_stats [OF 1, of ?s] 2 3 4 order_stats [OF 5, of ?s] 6 show ?thesis
    by simp
qed

end
